theory Spec2Isabelle
  imports Main "HOL-Library.Log_Nat"
begin

section \<open>JavaScript numbers\<close>

text \<open>
  Every number of the page is an IEEE 754 binary64 value. A finite double is a rational,
  so \<open>number\<close> is \<open>rat\<close>, and each arithmetic operation is the exact operation
  followed by \<open>round64\<close>, rounding to the nearest double with ties to even (53
  significant bits, gradual underflow below \<open>2 powi (- 1022)\<close>). Overflow to
  \<open>Infinity\<close> and \<open>NaN\<close> are outside this type: no operation of the page on the
  catalog values comes near \<open>2 ^ 1024\<close>, and of the two divisions, \<open>i / steps\<close>
  sits in a loop body that runs only when \<open>0 < steps\<close>, and \<open>300 / speed\<close>
  divides by the speed of a catalog device, none of which is 0.
\<close>

type_synonym number = rat

definition rne :: "rat \<Rightarrow> int" where
  \<comment> \<open>nearest integer, a tie going to the even neighbour\<close>
  "rne x = (let f = \<lfloor>x\<rfloor>; d = x - of_int f
            in if d < 1 / 2 then f else if 1 / 2 < d then f + 1
               else if even f then f else f + 1)"

definition ilog2 :: "rat \<Rightarrow> int" where
  \<comment> \<open>the binary exponent of a non-zero rational: \<open>2 powi ilog2 x \<le> \<bar>x\<bar> < 2 powi (ilog2 x + 1)\<close>\<close>
  "ilog2 x = (if 1 \<le> \<bar>x\<bar> then bitlen \<lfloor>\<bar>x\<bar>\<rfloor> - 1
              else let y = 1 / \<bar>x\<bar>; k = bitlen \<lfloor>y\<rfloor> - 1
                   in if y = 2 powi k then - k else - k - 1)"

definition round64 :: "rat \<Rightarrow> number" where
  "round64 x = (if x = 0 then 0
                else let u = max (ilog2 x) (- 1022) - 52
                     in of_int (rne (x / 2 powi u)) * 2 powi u)"

definition js_add :: "number \<Rightarrow> number \<Rightarrow> number" where
  "js_add a b = round64 (a + b)"

definition js_sub :: "number \<Rightarrow> number \<Rightarrow> number" where
  "js_sub a b = round64 (a - b)"

definition js_mul :: "number \<Rightarrow> number \<Rightarrow> number" where
  "js_mul a b = round64 (a * b)"

definition js_div :: "number \<Rightarrow> number \<Rightarrow> number" where
  "js_div a b = round64 (a / b)"

definition lit :: "rat \<Rightarrow> number" where
  \<comment> \<open>a decimal literal of the source denotes the double nearest to it\<close>
  "lit q = round64 q"

definition num :: "nat \<Rightarrow> number" where
  \<comment> \<open>loop counters, indices and lengths are integer-valued doubles, far below \<open>2 ^ 53\<close>\<close>
  "num n = round64 (of_nat n)"

definition trunc :: "number \<Rightarrow> int" where
  \<comment> \<open>ToIntegerOrInfinity on a finite number: truncation towards zero\<close>
  "trunc x = (if 0 \<le> x then \<lfloor>x\<rfloor> else \<lceil>x\<rceil>)"

definition is_random :: "number \<Rightarrow> bool" where
  \<comment> \<open>what \<open>Math.random()\<close> can return: a double in [0, 1)\<close>
  "is_random r = (0 \<le> r \<and> r < 1 \<and> round64 r = r)"

section \<open>Arrays and strings\<close>

definition slice :: "'a list \<Rightarrow> int \<Rightarrow> int \<Rightarrow> 'a list" where
  \<comment> \<open>\<open>Array.prototype.slice\<close> on integer arguments: negative indices count from the
      end, both ends are clamped to the length, an empty range gives the empty array\<close>
  "slice xs start end =
     (let len = int (length xs);
          k = (if start < 0 then max (len + start) 0 else min start len);
          final = (if end < 0 then max (len + end) 0 else min end len)
      in take (nat (final - k)) (drop (nat k) xs))"

definition slice_num :: "'a list \<Rightarrow> number \<Rightarrow> number \<Rightarrow> 'a list" where
  \<comment> \<open>\<open>slice\<close> called with fractional numbers: each is truncated first\<close>
  "slice_num xs a b = slice xs (trunc a) (trunc b)"

definition toUpperCase :: "string \<Rightarrow> string" where
  "toUpperCase s =
     map (\<lambda>c. let n = (of_char c :: nat) in if 97 \<le> n \<and> n \<le> 122 then char_of (n - 32) else c) s"

section \<open>The static catalogs\<close>

text \<open>
  The fields \<open>name\<close> of a device and of a job are \<open>gname\<close> and \<open>jname\<close>
  here, the \<open>id\<close> of a job is \<open>jid\<close>, and the \<open>type\<close> of a log entry is
  \<open>ltype\<close>: two records cannot share a field name, and \<open>id\<close> is the identity
  function of HOL.
\<close>

record gpu =
  gname :: string
  power :: number
  speed :: number

record job =
  jid :: number
  jname :: string
  duration :: number
  reward :: number

definition gpus :: "gpu list" where
  "gpus =
     [\<lparr>gname = ''RTX 4090'', power = lit 450, speed = lit (9 / 10)\<rparr>,
      \<lparr>gname = ''H100'', power = lit 700, speed = lit (12 / 10)\<rparr>,
      \<lparr>gname = ''A100'', power = lit 400, speed = lit (8 / 10)\<rparr>,
      \<lparr>gname = ''RTX 3090'', power = lit 350, speed = lit (7 / 10)\<rparr>,
      \<lparr>gname = ''M2 MacBook'', power = lit 30, speed = lit (3 / 10)\<rparr>]"

definition jobs :: "job list" where
  "jobs =
     [\<lparr>jid = lit 1, jname = ''Train ResNet-18 on CIFAR-10'', duration = lit 5000, reward = lit (12 / 10)\<rparr>,
      \<lparr>jid = lit 2, jname = ''Fine-tune Llama-7B'', duration = lit 8000, reward = lit (25 / 10)\<rparr>,
      \<lparr>jid = lit 3, jname = ''Stable Diffusion Proof'', duration = lit 3000, reward = lit (8 / 10)\<rparr>,
      \<lparr>jid = lit 4, jname = ''GPT-2 Scratch Train'', duration = lit 6000, reward = lit (18 / 10)\<rparr>]"

section \<open>Session state\<close>

text \<open>
  A log line is built from a template and its arguments. The constructor names the
  template and keeps the arguments as values; the rendering of a number into digits
  (\<open>toFixed\<close>) is not modelled. \<open>StepMsg a n l c\<close> is
  \<open>Step a/n, Loss: l, Acc: c%\<close>; \<open>ProofAccepted r\<close> is \<open>Proof accepted! +r $SY earned\<close>.
\<close>

datatype message =
    NodeStarted string number
  | QueueEmpty
  | ProcessingJob nat string
  | TrainingModel
  | StepMsg nat nat "number option" number
  | GeneratingProof
  | ProofAccepted number
  | NodeResumed
  | NodePaused
  | ShareCopied

record log_entry =
  time :: string
  msg :: "string \<times> message"
  ltype :: string

datatype layers_model = LayersModel

definition methods :: "layers_model \<Rightarrow> string list" where
  \<comment> \<open>Modelled from the TensorFlow.js API, a library the page imports and the repository
      does not hold: \<open>tf.sequential\<close> returns a \<open>tf.Sequential\<close>, a
      \<open>tf.LayersModel\<close>, and these are the methods it offers for building, training,
      using and storing the model. It trains with \<open>fit\<close>, \<open>fitDataset\<close> and
      \<open>trainOnBatch\<close>; it has no property \<open>train\<close>.\<close>
  "methods m =
     [''add'', ''pop'', ''summary'', ''compile'', ''fit'', ''fitDataset'', ''trainOnBatch'',
      ''evaluate'', ''evaluateDataset'', ''predict'', ''predictOnBatch'', ''getLayer'',
      ''getWeights'', ''setWeights'', ''save'', ''dispose'']"

datatype error = TypeError string

record state =
  selectedGpu :: gpu
  logs :: "log_entry list"
  isRunning :: bool
  earnings :: number
  progress :: number
  jobQueue :: "job list"
  currentJob :: nat
  showConfetti :: bool
  isPaused :: bool
  model :: "layers_model option"

definition initial :: state where
  \<comment> \<open>the arguments of the \<open>useState\<close> calls\<close>
  "initial =
     \<lparr>selectedGpu = gpus ! 0, logs = [], isRunning = False, earnings = lit 0, progress = lit 0,
      jobQueue = slice jobs 0 2, currentJob = 0, showConfetti = False, isPaused = False,
      model = None\<rparr>"

text \<open>
  The component is a function that React calls once per render. The state variables are
  constants of that call, so every function defined in the component (\<open>addLog\<close>,
  \<open>trainModel\<close>, \<open>processJob\<close>, the timer callbacks) reads the values of the render
  that created it: the parameter \<open>env\<close> below. A setter called with a value or with an
  updater \<open>prev => ...\<close> acts on the live state: the component \<open>st\<close> of the world.
  A callback that waits (\<open>setTimeout\<close>, \<open>await\<close>) is a pending task which keeps
  its \<open>env\<close>. An exception thrown in an async callback rejects its promise; nothing of
  the page catches it, so the rest of the callback is dropped and the error is recorded
  in \<open>uncaught\<close>.
\<close>

datatype wait = Timeout number | Promise

datatype task =
    Refill
  | TrainStage state job
  | PauseWait state job nat nat
  | TrainDone state job nat nat
  | StepWait state job nat nat
  | Settle state job
  | HideConfetti

record world =
  st :: state
  pending :: "(wait \<times> task) list"
  uncaught :: "error list"

definition upd :: "(state \<Rightarrow> state) \<Rightarrow> world \<Rightarrow> world" where
  "upd f w = w\<lparr>st := f (st w)\<rparr>"

definition setTimeout :: "task \<Rightarrow> number \<Rightarrow> world \<Rightarrow> world" where
  "setTimeout k d w = w\<lparr>pending := pending w @ [(Timeout d, k)]\<rparr>"

definition await :: "task \<Rightarrow> world \<Rightarrow> world" where
  \<comment> \<open>the rest of an async function, resumed when the awaited promise settles\<close>
  "await k w = w\<lparr>pending := pending w @ [(Promise, k)]\<rparr>"

definition reject :: "error \<Rightarrow> world \<Rightarrow> world" where
  "reject err w = w\<lparr>uncaught := uncaught w @ [err]\<rparr>"

definition addLog :: "string \<Rightarrow> message \<Rightarrow> string \<Rightarrow> state \<Rightarrow> state" where
  \<comment> \<open>\<open>now\<close> is the wall clock's \<open>toLocaleTimeString()\<close> at the call\<close>
  "addLog now m type s =
     s\<lparr>logs := logs s @ [\<lparr>time = now, msg = (toUpperCase type, m), ltype = type\<rparr>]\<rparr>"

section \<open>The job pipeline\<close>

definition accuracy :: "nat \<Rightarrow> nat \<Rightarrow> number" where
  \<comment> \<open>\<open>50 + (steps - i) * 5\<close>\<close>
  "accuracy steps i = js_add (lit 50) (js_mul (js_sub (num steps) (num i)) (lit 5))"

definition proofStage :: "state \<Rightarrow> job \<Rightarrow> string \<Rightarrow> world \<Rightarrow> world" where
  \<comment> \<open>\<open>processJob\<close>'s callback after \<open>await trainModel(10)\<close>\<close>
  "proofStage env jb now w =
     (let w1 = upd (addLog now GeneratingProof ''info'') w
      in setTimeout (Settle env jb) (lit 1500) w1)"

definition callTrain :: "layers_model option \<Rightarrow> error + unit" where
  \<comment> \<open>evaluating \<open>model.train(xs, ys, { epochs: 1 })\<close>: calling a property the object
      does not have throws\<close>
  "callTrain mo =
     (case mo of
        None \<Rightarrow> Inl (TypeError ''Cannot read properties of null'')
      | Some m \<Rightarrow>
          (if ''train'' \<in> set (methods m) then Inr ()
           else Inl (TypeError ''model.train is not a function'')))"

definition trainLoop :: "state \<Rightarrow> job \<Rightarrow> nat \<Rightarrow> nat \<Rightarrow> string \<Rightarrow> world \<Rightarrow> world" where
  \<comment> \<open>the loop test at index \<open>i\<close> and the body up to its first \<open>await\<close>, or to the
      exception that ends \<open>trainModel\<close> and with it \<open>processJob\<close>'s callback; leaving
      the loop disposes the tensors and returns into that callback\<close>
  "trainLoop env jb steps i now w =
     (if i < steps then
        (if isPaused env then setTimeout (PauseWait env jb steps i) (lit 100) w
         else (case callTrain (model env) of
                 Inl err \<Rightarrow> reject err w
               | Inr u \<Rightarrow> await (TrainDone env jb steps i) w))
      else proofStage env jb now w)"

definition trainModel :: "state \<Rightarrow> job \<Rightarrow> nat \<Rightarrow> string \<Rightarrow> world \<Rightarrow> world" where
  "trainModel env jb steps now w =
     (if model env = None then proofStage env jb now w
      else trainLoop env jb steps 0 now w)"

definition trainStep :: "state \<Rightarrow> job \<Rightarrow> nat \<Rightarrow> nat \<Rightarrow> string \<Rightarrow> number option \<Rightarrow> world \<Rightarrow> world" where
  \<comment> \<open>the rest of the body of step \<open>i\<close>, for a \<open>model.train\<close> that has resolved with
      \<open>loss\<close>\<close>
  "trainStep env jb steps i now loss w =
     (let acc = accuracy steps i;
          w1 = upd (addLog now (StepMsg (i + 1) steps loss acc) ''train'') w;
          w2 = upd (\<lambda>s. s\<lparr>progress := js_mul (js_div (num i) (num steps)) (lit 100)\<rparr>) w1
      in setTimeout (StepWait env jb steps i) (js_div (lit 300) (speed (selectedGpu env))) w2)"

definition trainStage :: "state \<Rightarrow> job \<Rightarrow> string \<Rightarrow> world \<Rightarrow> world" where
  \<comment> \<open>the callback \<open>processJob\<close> schedules after the bid\<close>
  "trainStage env jb now w =
     (let w1 = upd (addLog now TrainingModel ''info'') w
      in trainModel env jb 10 now w1)"

definition settle :: "state \<Rightarrow> job \<Rightarrow> string \<Rightarrow> world \<Rightarrow> world" where
  "settle env jb now w =
     (let rwd = js_mul (reward jb) (speed (selectedGpu env));
          w1 = upd (\<lambda>s. s\<lparr>earnings := js_add (earnings s) rwd\<rparr>) w;
          w2 = upd (addLog now (ProofAccepted rwd) ''success'') w1;
          w3 = upd (\<lambda>s. s\<lparr>showConfetti := True\<rparr>) w2;
          w4 = setTimeout HideConfetti (lit 3000) w3;
          w5 = upd (\<lambda>s. s\<lparr>currentJob := currentJob s + 1\<rparr>) w4
      in upd (\<lambda>s. s\<lparr>progress := lit 0\<rparr>) w5)"

definition refill :: "number \<Rightarrow> number \<Rightarrow> world \<Rightarrow> world" where
  \<comment> \<open>\<open>r1\<close> and \<open>r2\<close> are the results of the two calls of \<open>Math.random()\<close>, in order\<close>
  "refill r1 r2 w =
     upd (\<lambda>s. s\<lparr>jobQueue := jobQueue s @
            slice_num jobs (js_mul r1 (num (length jobs)))
                           (js_add (js_mul r2 (num (length jobs))) (lit 1))\<rparr>) w"

definition processJob :: "state \<Rightarrow> string \<Rightarrow> world \<Rightarrow> world" where
  "processJob env now w =
     (if currentJob env \<ge> length (jobQueue env) then
        (let w1 = upd (addLog now QueueEmpty ''info'') w
         in setTimeout Refill (lit 2000) w1)
      else
        (let jb = jobQueue env ! currentJob env;
             w1 = upd (addLog now (ProcessingJob (currentJob env + 1) (jname jb)) ''bid'') w
         in setTimeout (TrainStage env jb) (lit 1000) w1))"

definition startSimulation :: "state \<Rightarrow> string \<Rightarrow> world \<Rightarrow> world" where
  "startSimulation env now w =
     (let w1 = upd (\<lambda>s. s\<lparr>isRunning := True\<rparr>) w;
          w2 = upd (\<lambda>s. s\<lparr>earnings := lit 0\<rparr>) w1;
          w3 = upd (\<lambda>s. s\<lparr>logs := []\<rparr>) w2;
          w4 = upd (\<lambda>s. s\<lparr>currentJob := 0\<rparr>) w3;
          w5 = upd (\<lambda>s. s\<lparr>progress := lit 0\<rparr>) w4;
          w6 = upd (addLog now (NodeStarted (gname (selectedGpu env)) (power (selectedGpu env))) ''info'') w5
      in processJob env now w6)"

definition togglePause :: "state \<Rightarrow> string \<Rightarrow> world \<Rightarrow> world" where
  "togglePause env now w =
     (let w1 = upd (\<lambda>s. s\<lparr>isPaused := \<not> isPaused env\<rparr>) w
      in upd (addLog now (if isPaused env then NodeResumed else NodePaused) ''info'') w1)"

definition shareEarnings :: "bool \<Rightarrow> string \<Rightarrow> world \<Rightarrow> world" where
  \<comment> \<open>\<open>canShare\<close>: the browser has \<open>navigator.share\<close>\<close>
  "shareEarnings canShare now w =
     (if canShare then w else upd (addLog now ShareCopied ''info'') w)"

section \<open>Events\<close>

text \<open>
  JavaScript runs one callback at a time, to its end or to its next \<open>await\<close>. A run
  of the page is therefore a sequence of events: a click, the mount effect, or a pending
  task being resumed. Each event comes with the wall clock's reading. \<open>Fire k r1 r2 loss\<close>
  resumes the pending task number \<open>k\<close>; \<open>r1\<close> and \<open>r2\<close> are what
  \<open>Math.random()\<close> returns if the task asks, and \<open>loss\<close> is what an awaited
  \<open>model.train(...)\<close> resolves to, for the task that waits for one. Pending tasks
  may be resumed in any order, which covers the order the timers give. The buttons are rendered by the component: Start only while
  \<open>isRunning\<close> is false, Pause/Resume, Share and Test Sound only while it is true, and
  the device selector is disabled while running. Sound and confetti rendering touch no
  state.
\<close>

datatype event =
    InitModel
  | SelectGpu string
  | Start
  | TogglePause
  | Share bool
  | TestSound
  | Fire nat number number "number option"

definition runTask :: "string \<Rightarrow> number \<Rightarrow> number \<Rightarrow> number option \<Rightarrow> task \<Rightarrow> world \<Rightarrow> world" where
  "runTask now r1 r2 loss k w =
     (case k of
        Refill \<Rightarrow> refill r1 r2 w
      | TrainStage env jb \<Rightarrow> trainStage env jb now w
      | PauseWait env jb steps i \<Rightarrow> trainLoop env jb steps i now w
      | TrainDone env jb steps i \<Rightarrow> trainStep env jb steps i now loss w
      | StepWait env jb steps i \<Rightarrow> trainLoop env jb steps (i + 1) now w
      | Settle env jb \<Rightarrow> settle env jb now w
      | HideConfetti \<Rightarrow> upd (\<lambda>s. s\<lparr>showConfetti := False\<rparr>) w)"

definition step :: "string \<Rightarrow> event \<Rightarrow> world \<Rightarrow> world option" where
  "step now e w =
     (case e of
        InitModel \<Rightarrow>
          (if model (st w) = None then Some (upd (\<lambda>s. s\<lparr>model := Some LayersModel\<rparr>) w) else None)
      | SelectGpu n \<Rightarrow>
          (if isRunning (st w) then None
           else (case find (\<lambda>g. gname g = n) gpus of
                   None \<Rightarrow> None
                 | Some g \<Rightarrow> Some (upd (\<lambda>s. s\<lparr>selectedGpu := g\<rparr>) w)))
      | Start \<Rightarrow> (if isRunning (st w) then None else Some (startSimulation (st w) now w))
      | TogglePause \<Rightarrow> (if isRunning (st w) then Some (togglePause (st w) now w) else None)
      | Share canShare \<Rightarrow> (if isRunning (st w) then Some (shareEarnings canShare now w) else None)
      | TestSound \<Rightarrow> (if isRunning (st w) then Some w else None)
      | Fire k r1 r2 loss \<Rightarrow>
          (if k < length (pending w) \<and> is_random r1 \<and> is_random r2 then
             Some (runTask now r1 r2 loss (snd (pending w ! k))
                     (w\<lparr>pending := take k (pending w) @ drop (Suc k) (pending w)\<rparr>))
           else None))"

fun run :: "(string \<times> event) list \<Rightarrow> world \<Rightarrow> world option" where
  "run [] w = Some w"
| "run ((now, e) # es) w = (case step now e w of None \<Rightarrow> None | Some w' \<Rightarrow> run es w')"

definition start_world :: world where
  "start_world = \<lparr>st = initial, pending = [], uncaught = []\<rparr>"

section \<open>Observations and invariants\<close>

definition categories :: "string list" where
  \<comment> \<open>the union type declared for the \<open>type\<close> of a log entry and of \<open>addLog\<close>\<close>
  "categories = [''info'', ''success'', ''bid'']"

fun is_step :: "message \<Rightarrow> bool" where
  "is_step (StepMsg a n l c) = True"
| "is_step m = False"

definition entry_ok :: "log_entry \<Rightarrow> bool" where
  "entry_ok e = (ltype e \<in> set categories \<and> \<not> is_step (snd (msg e)))"

definition logTypes :: "world \<Rightarrow> string list" where
  "logTypes w = map ltype (logs (st w))"

definition logMessages :: "world \<Rightarrow> message list" where
  "logMessages w = map (\<lambda>e. snd (msg e)) (logs (st w))"

definition stepEntries :: "world \<Rightarrow> nat" where
  \<comment> \<open>how many training steps have been logged as completed\<close>
  "stepEntries w = length (filter (\<lambda>e. is_step (snd (msg e))) (logs (st w)))"



definition outcome :: "world \<Rightarrow> nat \<times> number \<times> task list \<times> error list" where
  "outcome w = (stepEntries w, progress (st w), map snd (pending w), uncaught w)"

definition env_ok :: "state \<Rightarrow> state \<Rightarrow> bool" where
  \<comment> \<open>the render \<open>env\<close> that started the run, against the live state \<open>s\<close>\<close>
  "env_ok s env = (\<not> isPaused env \<and> (model s = None \<longrightarrow> model env = None))"

fun task_ok :: "state \<Rightarrow> task \<Rightarrow> bool" where
  \<comment> \<open>what holds of a pending task in a run from the initial state, given the live state\<close>
  "task_ok s (TrainStage env jb) = (currentJob s = 0 \<and> env_ok s env)"
| "task_ok s (PauseWait env jb steps i) = False"
| "task_ok s (TrainDone env jb steps i) = False"
| "task_ok s (StepWait env jb steps i) = False"
| "task_ok s Refill = False"
| "task_ok s (Settle env jb) = (currentJob s = 0 \<and> env_ok s env)"
| "task_ok s HideConfetti = True"

definition pipeline_inv :: "world \<Rightarrow> bool" where
  "pipeline_inv w =
     (progress (st w) = 0
      \<and> jobQueue (st w) = slice jobs 0 2
      \<and> currentJob (st w) \<le> 1
      \<and> length (pending w) \<le> 1
      \<and> (isRunning (st w) \<or>
           (pending w = [] \<and> \<not> isPaused (st w) \<and> currentJob (st w) = 0))
      \<and> list_all (\<lambda>p. task_ok (st w) (snd p)) (pending w)
      \<and> list_all entry_ok (logs (st w)))"

section \<open>Arithmetic facts, by evaluation\<close>

lemmas pipeline_defs =
  runTask_def startSimulation_def processJob_def trainStage_def trainModel_def
  trainLoop_def callTrain_def trainStep_def proofStage_def settle_def refill_def
  togglePause_def shareEarnings_def upd_def setTimeout_def await_def reject_def addLog_def
  Let_def

text \<open>
  Three values every implementation of binary64 agrees on: the double of the literal
  0.1, the sum 0.1 + 0.2 (which is not the double of 0.3), and a tie rounded to even.
\<close>

lemma round64_known_values:
  "lit (1 / 10) = 3602879701896397 / 36028797018963968
   \<and> js_add (lit (1 / 10)) (lit (2 / 10)) = 1351079888211149 / 4503599627370496
   \<and> js_add (lit (1 / 10)) (lit (2 / 10)) \<noteq> lit (3 / 10)
   \<and> round64 (2 ^ 53 + 1) = 2 ^ 53"
  by code_simp

lemma lit_0: "lit 0 = 0"
  by (simp add: lit_def round64_def)

lemma is_random_0: "is_random 0"
  by (simp add: is_random_def round64_def)

lemma is_random_three_quarters: "is_random (3 / 4)"
  by code_simp

lemma toUpper_info: "toUpperCase ''info'' = ''INFO''"
  by code_simp


lemma toUpper_success: "toUpperCase ''success'' = ''SUCCESS''"
  by code_simp

lemma toUpper_train: "toUpperCase ''train'' = ''TRAIN''"
  by code_simp

lemma no_train_method: "''train'' \<notin> set (methods m)"
  by (simp add: methods_def)

lemma initial_queue: "slice jobs 0 2 = [jobs ! 0, jobs ! 1]"
  by (simp add: slice_def jobs_def)

lemma jobs_0:
  "jobs ! 0 = \<lparr>jid = lit 1, jname = ''Train ResNet-18 on CIFAR-10'', duration = lit 5000,
                reward = lit (6 / 5)\<rparr>"
  by (simp add: jobs_def)

lemma gpus_4: "gpus ! 4 = \<lparr>gname = ''M2 MacBook'', power = lit 30, speed = lit (3 / 10)\<rparr>"
  by (simp add: gpus_def)

lemma jobs_2:
  "jobs ! 2 = \<lparr>jid = lit 3, jname = ''Stable Diffusion Proof'', duration = lit 3000, reward = lit (4 / 5)\<rparr>"
  by (simp add: jobs_def)

lemma mul_08_03: "js_mul (lit (4 / 5)) (lit (3 / 10)) = lit (6 / 25)"
  by code_simp

lemma add_0_024: "js_add 0 (lit (6 / 25)) = lit (6 / 25)"
  by code_simp

lemma lit_024: "lit (6 / 25) = 1080863910568919 / 4503599627370496"
  by code_simp

lemmas trace_simps =
  step_def pipeline_defs start_world_def initial_def initial_queue is_random_0 lit_0
  no_train_method

section \<open>The pipeline invariant\<close>

lemma inv_fire:
  assumes inv: "pipeline_inv w" and k: "k < length (pending w)"
  shows "pipeline_inv (runTask now r1 r2 loss (snd (pending w ! k))
            (w\<lparr>pending := take k (pending w) @ drop (Suc k) (pending w)\<rparr>))"
proof -
  from inv k obtain wt tk where p: "pending w = [(wt, tk)]" and k0: "k = 0"
    by (cases "pending w") (auto simp: pipeline_inv_def)
  from inv p have ok: "task_ok (st w) tk"
    by (simp add: pipeline_inv_def)
  show ?thesis
  proof (cases tk)
    case (TrainStage env jb)
    with ok inv p k0 show ?thesis
      by (cases "model env")
        (simp_all add: pipeline_inv_def pipeline_defs env_ok_def entry_ok_def categories_def
          no_train_method)
  next
    case (Settle env jb)
    with ok inv p k0 show ?thesis
      by (simp add: pipeline_inv_def pipeline_defs env_ok_def entry_ok_def categories_def lit_0)
  next
    case HideConfetti
    with inv p k0 show ?thesis
      by (simp add: pipeline_inv_def pipeline_defs)
  qed (use ok in simp_all)
qed

lemma inv_step:
  assumes "pipeline_inv w" and "step now e w = Some w'"
  shows "pipeline_inv w'"
proof (cases e)
  case (Fire k r1 r2 loss)
  with assms inv_fire [of w k now r1 r2 loss] show ?thesis
    by (auto simp: step_def split: if_splits)
next
  case Start
  with assms show ?thesis
    by (auto simp: step_def pipeline_inv_def pipeline_defs env_ok_def entry_ok_def
        categories_def initial_queue lit_0 split: if_splits)
next
  case InitModel
  with assms have w': "w' = upd (\<lambda>s. s\<lparr>model := Some LayersModel\<rparr>) w"
    by (auto simp: step_def split: if_splits)
  have "task_ok (st w') tk" if "task_ok (st w) tk" for tk
    using that unfolding w' by (cases tk) (simp_all add: upd_def env_ok_def)
  with assms(1) show ?thesis
    unfolding w' by (auto simp: pipeline_inv_def upd_def list_all_iff)
next
  case (SelectGpu n)
  with assms show ?thesis
    by (auto simp: step_def pipeline_inv_def upd_def split: if_splits option.splits)
next
  case TogglePause
  with assms have w': "w' = togglePause (st w) now w" and r: "isRunning (st w)"
    by (auto simp: step_def split: if_splits)
  have "task_ok (st w') tk" if "task_ok (st w) tk" for tk
    using that unfolding w' by (cases tk) (simp_all add: pipeline_defs env_ok_def)
  with assms(1) r show ?thesis
    unfolding w'
    by (auto simp: pipeline_inv_def pipeline_defs list_all_iff entry_ok_def categories_def)
next
  case (Share canShare)
  with assms have w': "w' = shareEarnings canShare now w" and r: "isRunning (st w)"
    by (auto simp: step_def split: if_splits)
  have "task_ok (st w') tk" if "task_ok (st w) tk" for tk
    using that unfolding w' by (cases tk) (simp_all add: pipeline_defs env_ok_def)
  with assms(1) r show ?thesis
    unfolding w'
    by (auto simp: pipeline_inv_def pipeline_defs list_all_iff entry_ok_def categories_def)
next
  case TestSound
  with assms show ?thesis
    by (auto simp: step_def split: if_splits)
qed

lemma inv_run:
  "pipeline_inv w \<Longrightarrow> run evs w = Some w' \<Longrightarrow> pipeline_inv w'"
proof (induction evs arbitrary: w)
  case Nil
  then show ?case by simp
next
  case (Cons a evs)
  obtain now e where a: "a = (now, e)" by (cases a)
  with Cons.prems obtain w1 where s: "step now e w = Some w1" and r: "run evs w1 = Some w'"
    by (auto split: option.splits)
  from inv_step [OF Cons.prems(1) s] have "pipeline_inv w1" .
  from Cons.IH [OF this r] show ?case .
qed


lemma inv_start: "pipeline_inv start_world"
  by (simp add: pipeline_inv_def start_world_def initial_def lit_0)

lemma run_inv:
  assumes "run evs start_world = Some w"
  shows "pipeline_inv w"
  using inv_run [OF inv_start assms] .

text \<open>
  Start is offered only while \<open>isRunning\<close> is false, and nothing sets it back to false;
  Pause is offered only while it is true. So the render whose \<open>startSimulation\<close> runs
  has \<open>isPaused = false\<close>, every task of the pipeline keeps that constant, and the
  branch of the training loop that waits for a resume is never taken.
\<close>

lemma start_only_when_not_paused:
  assumes "run evs start_world = Some w" and "\<not> isRunning (st w)"
  shows "\<not> isPaused (st w)"
  using run_inv [OF assms(1)] assms(2) by (simp add: pipeline_inv_def)

lemma pending_tasks_ok:
  assumes "run evs start_world = Some w" and "(wt, tk) \<in> set (pending w)"
  shows "task_ok (st w) tk"
proof -
  from run_inv [OF assms(1)]
  have "\<forall>p \<in> set (pending w). task_ok (st w) (snd p)"
    by (simp add: pipeline_inv_def list_all_iff)
  with assms(2) show ?thesis by fastforce
qed

lemma pause_branch_unreachable:
  assumes "run evs start_world = Some w"
  shows "(wt, PauseWait env jb steps i) \<notin> set (pending w)"
  using pending_tasks_ok [OF assms, of wt "PauseWait env jb steps i"] by auto

text \<open>
  \<open>processJob\<close> is called by \<open>startSimulation\<close> and by nothing else, with the
  index and the queue of the render before the start: index 0 and the first two jobs of
  the catalog. So a run from the initial state takes the bidding branch, settles at
  most that one job, never finds the queue exhausted and never schedules a refill.
\<close>

lemma refill_unreachable:
  assumes "run evs start_world = Some w"
  shows "(wt, Refill) \<notin> set (pending w)"
  using pending_tasks_ok [OF assms, of wt Refill] by auto

lemma queue_never_exhausted:
  assumes "run evs start_world = Some w"
  shows "currentJob (st w) < length (jobQueue (st w))"
  using run_inv [OF assms] by (simp add: pipeline_inv_def initial_queue)



text \<open>
  The mount effect only ever sets the model, so when the live model is still null as
  the training stage begins, the model of the render that started the run is null too.
\<close>

lemma null_model_is_captured:
  assumes "run evs start_world = Some w" and "(wt, TrainStage env jb) \<in> set (pending w)"
    and "model (st w) = None"
  shows "model env = None"
  using pending_tasks_ok [OF assms(1,2)] assms(3) by (simp add: env_ok_def)

section \<open>Lines no run reaches\<close>

text \<open>
  What the source says in the places the runs above never get to: the body of a step
  after \<open>model.train\<close>, the waiting branch of the loop, and the refill. These are facts
  about the text of the functions, for any arguments.
\<close>

lemma progress_9: "js_mul (js_div (num 9) (num 10)) (lit 100) = 90"
  by code_simp

lemma step_body_sets_progress_from_index:
  "progress (st (trainStep env jb 10 9 now loss w)) = 90
   \<and> logs (st (trainStep env jb 10 9 now loss w)) =
       logs (st w) @
         [\<lparr>time = now, msg = (''TRAIN'', StepMsg 10 10 loss (accuracy 10 9)), ltype = ''train''\<rparr>]"
  by (simp add: pipeline_defs progress_9 toUpper_train)

lemma accuracy_table:
  "map (accuracy 10) [0 ..< 10] = [100, 95, 90, 85, 80, 75, 70, 65, 60, 55]"
  by code_simp

lemma paused_iteration_changes_nothing:
  assumes "isPaused env" and "i < steps"
  shows "st (runTask now r1 r2 loss (PauseWait env jb steps i) w) = st w"
    and "pending (runTask now r1 r2 loss (PauseWait env jb steps i) w) =
           pending w @ [(Timeout (lit 100), PauseWait env jb steps i)]"
  using assms by (simp_all add: pipeline_defs)

lemma empty_slice:
  "slice_num jobs (js_mul (3 / 4) (num (length jobs))) (js_add (js_mul 0 (num (length jobs))) (lit 1)) = []"
  by code_simp

lemma refill_text_may_append_nothing:
  "is_random (3 / 4) \<and> is_random 0
   \<and> jobQueue (st (runTask now (3 / 4) 0 loss Refill w)) = jobQueue (st w)"
  by (simp add: is_random_three_quarters is_random_0 pipeline_defs empty_slice)

section \<open>The claims\<close>

text \<open>
  C1. For every device and every job, the reward settled when the job completes on the
  device is the job's base reward times the device's speed multiplier, in the page's
  arithmetic, and the settlement adds exactly that amount to the accumulated reward.
  The settlement callback computes the product once, adds it to the previous total and
  logs the same number in its success entry.
\<close>

theorem settle_adds_reward:
  "earnings (st (settle env jb now w)) =
     js_add (earnings (st w)) (js_mul (reward jb) (speed (selectedGpu env)))
   \<and> logs (st (settle env jb now w)) =
     logs (st w) @
       [\<lparr>time = now,
          msg = (''SUCCESS'', ProofAccepted (js_mul (reward jb) (speed (selectedGpu env)))),
          ltype = ''success''\<rparr>]"
  by (simp add: pipeline_defs toUpper_success)

text \<open>
  C3. The claim is that progress is updated after each completed training step, up to
  100 after the tenth. Started with the model in place, the training stage calls
  \<open>model.train\<close> in its first iteration; the model has no such method, the call
  throws, and the stage ends there: no step is logged, progress stays 0, nothing is
  left pending and the error is uncaught.
\<close>

theorem training_aborts_at_first_step:
  "map_option outcome
     (run [(''09:00:00'', InitModel), (''09:00:01'', Start), (''09:00:02'', Fire 0 0 0 None)]
        start_world)
   = Some (0, 0, [], [TypeError ''model.train is not a function''])"
  by (simp add: trace_simps outcome_def stepEntries_def)

text \<open>
  C4. The claim is that each training step logs an accuracy greater than the step
  before it. In the same run, on another device, the log ends with the line that
  announces the training: no step line, hence no accuracy, is ever written.
\<close>

theorem no_accuracy_is_logged:
  "map_option logMessages
     (run [(''09:00:00'', InitModel), (''09:00:01'', SelectGpu ''H100''), (''09:00:02'', Start),
           (''09:00:03'', Fire 0 0 0 None)] start_world)
   = Some [NodeStarted ''H100'' (lit 700), ProcessingJob 1 ''Train ResNet-18 on CIFAR-10'',
           TrainingModel]"
  by (simp add: trace_simps logMessages_def gpus_def jobs_0)






text \<open>
  C7. In every run from the initial state, progress stays within [0, 100], and it is 0
  whenever a training stage is about to begin (its callback is pending). Starting a run
  and settling a job both set it to 0.
\<close>

theorem progress_in_range_and_zero_at_training:
  assumes "run evs start_world = Some w"
  shows "0 \<le> progress (st w) \<and> progress (st w) \<le> 100
         \<and> (\<forall>wt env jb. (wt, TrainStage env jb) \<in> set (pending w) \<longrightarrow> progress (st w) = 0)
         \<and> progress (st (startSimulation env0 now0 w0)) = 0
         \<and> progress (st (settle env0 jb0 now0 w0)) = 0"
proof -
  from run_inv [OF assms] have i: "progress (st w) = 0"
    by (simp add: pipeline_inv_def)
  moreover have "progress (st (startSimulation env0 now0 w0)) = 0"
    by (simp add: pipeline_defs lit_0)
  moreover have "progress (st (settle env0 jb0 now0 w0)) = 0"
    by (simp add: pipeline_defs lit_0)
  ultimately show ?thesis by simp
qed

theorem progress_in_range_witness:
  "\<exists>w. run [(''09:00:00'', InitModel), (''09:00:01'', Start)] start_world = Some w
     \<and> (Timeout (lit 1000), TrainStage (initial\<lparr>model := Some LayersModel\<rparr>) (jobs ! 0))
         \<in> set (pending w)
     \<and> 0 \<le> progress (st w) \<and> progress (st w) \<le> 100 \<and> progress (st w) = 0"
proof -
  obtain w where h: "run [(''09:00:00'', InitModel), (''09:00:01'', Start)] start_world = Some w"
    and p: "(Timeout (lit 1000), TrainStage (initial\<lparr>model := Some LayersModel\<rparr>) (jobs ! 0))
              \<in> set (pending w)"
    by (simp add: trace_simps)
  from progress_in_range_and_zero_at_training [OF h] p h show ?thesis by blast
qed

text \<open>
  C8. Settling "Stable Diffusion Proof" (base reward 0.8) on "M2 MacBook" (speed 0.3)
  gives, in double arithmetic, exactly the double that the literal 0.24 denotes; added
  to a total of 0 it leaves that same double. (That double is the rational in the last
  line, the nearest one to 24/100.)
\<close>

theorem m2_stable_diffusion_reward:
  "gname (gpus ! 4) = ''M2 MacBook'' \<and> speed (gpus ! 4) = lit (3 / 10)
   \<and> jname (jobs ! 2) = ''Stable Diffusion Proof'' \<and> reward (jobs ! 2) = lit (8 / 10)
   \<and> js_mul (reward (jobs ! 2)) (speed (gpus ! 4)) = lit (24 / 100)
   \<and> earnings (st (settle (env\<lparr>selectedGpu := gpus ! 4\<rparr>) (jobs ! 2) now
                      (upd (\<lambda>s. s\<lparr>earnings := lit 0\<rparr>) w))) = lit (24 / 100)
   \<and> lit (24 / 100) = 1080863910568919 / 4503599627370496"
proof -
  have catalog: "gname (gpus ! 4) = ''M2 MacBook'' \<and> speed (gpus ! 4) = lit (3 / 10)
      \<and> jname (jobs ! 2) = ''Stable Diffusion Proof'' \<and> reward (jobs ! 2) = lit (8 / 10)"
    by (simp add: gpus_4 jobs_2)
  have product: "js_mul (reward (jobs ! 2)) (speed (gpus ! 4)) = lit (24 / 100)"
    by (simp add: gpus_4 jobs_2 mul_08_03)
  have total: "earnings (st (settle (env\<lparr>selectedGpu := gpus ! 4\<rparr>) (jobs ! 2) now
                      (upd (\<lambda>s. s\<lparr>earnings := lit 0\<rparr>) w))) = lit (24 / 100)"
    by (simp add: gpus_4 jobs_2 mul_08_03 add_0_024 lit_0 pipeline_defs)
  have "lit (24 / 100) = 1080863910568919 / 4503599627370496"
    using lit_024 by simp
  with catalog product total show ?thesis
    by blast
qed

text \<open>
  C9. In every run from the initial state, each entry of the log carries one of the
  three declared categories info, success and bid. (The one call that passes another
  category, train, stands after the call of \<open>model.train\<close> and is never reached.)
\<close>

theorem log_categories_declared:
  assumes "run evs start_world = Some w" and "e \<in> set (logs (st w))"
  shows "ltype e \<in> set categories"
proof -
  from run_inv [OF assms(1)] have "list_all entry_ok (logs (st w))"
    by (simp add: pipeline_inv_def)
  with assms(2) have "entry_ok e"
    by (simp add: list_all_iff)
  then show ?thesis
    by (simp add: entry_ok_def)
qed

theorem log_categories_declared_witness:
  "\<exists>w. run [(''09:00:00'', InitModel), (''09:00:01'', Start), (''09:00:02'', Fire 0 0 0 None)]
          start_world = Some w
     \<and> logTypes w = [''info'', ''bid'', ''info'']
     \<and> last (logs (st w)) \<in> set (logs (st w))
     \<and> ltype (last (logs (st w))) \<in> set categories"
proof -
  obtain w where h: "run [(''09:00:00'', InitModel), (''09:00:01'', Start),
      (''09:00:02'', Fire 0 0 0 None)] start_world = Some w"
    and l: "logs (st w) \<noteq> []" and t: "logTypes w = [''info'', ''bid'', ''info'']"
    by (simp add: trace_simps logTypes_def)
  from l have m: "last (logs (st w)) \<in> set (logs (st w))" by simp
  from log_categories_declared [OF h m] h m t show ?thesis by blast
qed

text \<open>
  C10. When the model of the render that started the run is null, the training stage
  logs its start, \<open>trainModel\<close> returns at once (no step is logged, progress is left
  as it is, no loop task is pending), and the pipeline goes on: the proof message is
  logged, the settlement is scheduled 1500 ms later and, when it runs, adds the reward.
\<close>

theorem null_model_skips_training:
  assumes "model env = None"
  shows "logs (st (trainStage env jb now w)) =
           logs (st w) @ [\<lparr>time = now, msg = (''INFO'', TrainingModel), ltype = ''info''\<rparr>,
                          \<lparr>time = now, msg = (''INFO'', GeneratingProof), ltype = ''info''\<rparr>]
         \<and> stepEntries (trainStage env jb now w) = stepEntries w
         \<and> progress (st (trainStage env jb now w)) = progress (st w)
         \<and> pending (trainStage env jb now w) = pending w @ [(Timeout (lit 1500), Settle env jb)]
         \<and> earnings (st (runTask now' r1 r2 loss (Settle env jb) (trainStage env jb now w))) =
             js_add (earnings (st w)) (js_mul (reward jb) (speed (selectedGpu env)))"
  using assms by (simp add: pipeline_defs stepEntries_def toUpper_info)

theorem null_model_witness:
  "model initial = None
   \<and> logTypes (trainStage initial (jobs ! 0) ''09:00:02'' start_world) = [''info'', ''info'']
   \<and> stepEntries (trainStage initial (jobs ! 0) ''09:00:02'' start_world) = 0
   \<and> pending (trainStage initial (jobs ! 0) ''09:00:02'' start_world) =
        [(Timeout (lit 1500), Settle initial (jobs ! 0))]"
proof -
  have m: "model initial = None" by (simp add: initial_def)
  have l: "logs (st start_world) = []" "pending start_world = []"
    by (simp_all add: start_world_def initial_def)
  from null_model_skips_training [OF m, of "jobs ! 0" "''09:00:02''" start_world] m l
  show ?thesis
    by (simp add: logTypes_def stepEntries_def)
qed

end
